theory Spec2Isabelle
  imports Complex_Main "HOL-Library.Sublist"
begin

section \<open>Python values\<close>

text \<open>
  The server in \<^verbatim>\<open>mcp_server.py\<close> passes decoded JSON around: \<^verbatim>\<open>None\<close>, booleans,
  unbounded integers, floats, strings, lists and dictionaries with string keys. A
  dictionary is an association list in insertion order; a decoded JSON object has
  pairwise distinct keys. A float is the rational number it denotes (the values
  \<^verbatim>\<open>nan\<close> and \<^verbatim>\<open>inf\<close>, which are not JSON, have no counterpart here). Text is a list
  of characters with code points below 256, and its length counts characters.
\<close>

datatype pyval =
    PNone
  | PBool bool
  | PInt int
  | PFloat rat
  | PStr string
  | PList "pyval list"
  | PDict "(string \<times> pyval) list"

text \<open>
  The exceptions met in this module, each with the text that \<^verbatim>\<open>str(e)\<close> gives.
  All of them derive from \<^verbatim>\<open>Exception\<close>; \<^verbatim>\<open>TransportError\<close> stands for whatever
  the HTTP library raises (connection failure, timeout, ...).
\<close>

datatype exn =
    AttributeError string
  | TypeError string
  | KeyError string
  | IndexError string
  | NameError string
  | JSONDecodeError string
  | TransportError string

fun exn_str :: "exn \<Rightarrow> string" where
  "exn_str (AttributeError m) = m"
| "exn_str (TypeError m) = m"
| "exn_str (KeyError m) = m"
| "exn_str (IndexError m) = m"
| "exn_str (NameError m) = m"
| "exn_str (JSONDecodeError m) = m"
| "exn_str (TransportError m) = m"

text \<open>A computation either raises (\<open>Inl\<close>) or returns (\<open>Inr\<close>).\<close>

definition bind_res :: "exn + 'a \<Rightarrow> ('a \<Rightarrow> exn + 'b) \<Rightarrow> exn + 'b" where
  "bind_res m f = (case m of Inl e \<Rightarrow> Inl e | Inr x \<Rightarrow> f x)"

definition quoted :: "string \<Rightarrow> string" where
  "quoted s = [CHR 0x27] @ s @ [CHR 0x27]"

fun type_name :: "pyval \<Rightarrow> string" where
  "type_name PNone = ''NoneType''"
| "type_name (PBool b) = ''bool''"
| "type_name (PInt i) = ''int''"
| "type_name (PFloat r) = ''float''"
| "type_name (PStr s) = ''str''"
| "type_name (PList xs) = ''list''"
| "type_name (PDict d) = ''dict''"

text \<open>Truth value of an object, as \<^verbatim>\<open>if x:\<close> and \<^verbatim>\<open>not x\<close> test it.\<close>

fun truthy :: "pyval \<Rightarrow> bool" where
  "truthy PNone = False"
| "truthy (PBool b) = b"
| "truthy (PInt i) = (i \<noteq> 0)"
| "truthy (PFloat r) = (r \<noteq> 0)"
| "truthy (PStr s) = (s \<noteq> [])"
| "truthy (PList xs) = (xs \<noteq> [])"
| "truthy (PDict d) = (d \<noteq> [])"

text \<open>
  Python's \<^verbatim>\<open>==\<close> on these values: numbers compare by value across \<^verbatim>\<open>bool\<close>,
  \<^verbatim>\<open>int\<close> and \<^verbatim>\<open>float\<close>, lists compare elementwise, dictionaries compare as
  mappings (same number of keys, and every key of the left one bound to an equal value
  in the right one), and values of different kinds are unequal.
\<close>

fun num_of :: "pyval \<Rightarrow> rat option" where
  "num_of (PBool b) = Some (if b then 1 else 0)"
| "num_of (PInt i) = Some (of_int i)"
| "num_of (PFloat r) = Some r"
| "num_of _ = None"

fun py_eq :: "pyval \<Rightarrow> pyval \<Rightarrow> bool" where
  "py_eq (PList xs) (PList ys) = list_all2 py_eq xs ys"
| "py_eq (PDict a) (PDict b) =
     (length a = length b \<and>
      list_all (\<lambda>(k, v). case map_of b k of None \<Rightarrow> False | Some w \<Rightarrow> py_eq v w) a)"
| "py_eq (PStr s) (PStr t) = (s = t)"
| "py_eq PNone PNone = True"
| "py_eq x y = (case (num_of x, num_of y) of (Some p, Some q) \<Rightarrow> p = q | _ \<Rightarrow> False)"

text \<open>\<^verbatim>\<open>obj.get(key, default)\<close>: only a dictionary has the method.\<close>

fun py_get :: "pyval \<Rightarrow> string \<Rightarrow> pyval \<Rightarrow> exn + pyval" where
  "py_get (PDict d) k dflt = Inr (case map_of d k of None \<Rightarrow> dflt | Some v \<Rightarrow> v)"
| "py_get v k dflt =
     Inl (AttributeError (quoted (type_name v) @ '' object has no attribute '' @ quoted ''get''))"

text \<open>\<^verbatim>\<open>key in obj\<close> for a string \<open>key\<close>: key membership in a dictionary, element
  membership in a list, substring test on a string, \<^verbatim>\<open>TypeError\<close> otherwise.\<close>

definition is_substring :: "string \<Rightarrow> string \<Rightarrow> bool" where
  "is_substring s t = list_ex (\<lambda>u. prefix s u) (suffixes t)"

fun py_contains :: "pyval \<Rightarrow> string \<Rightarrow> exn + bool" where
  "py_contains (PDict d) k = Inr (k \<in> set (map fst d))"
| "py_contains (PList xs) k = Inr (list_ex (\<lambda>x. py_eq x (PStr k)) xs)"
| "py_contains (PStr s) k = Inr (is_substring k s)"
| "py_contains v k =
     Inl (TypeError (''argument of type '' @ quoted (type_name v) @ '' is not iterable''))"

text \<open>\<^verbatim>\<open>obj[key]\<close> for a string \<open>key\<close>.\<close>

fun py_getitem :: "pyval \<Rightarrow> string \<Rightarrow> exn + pyval" where
  "py_getitem (PDict d) k =
     (case map_of d k of None \<Rightarrow> Inl (KeyError (quoted k)) | Some v \<Rightarrow> Inr v)"
| "py_getitem (PList xs) k =
     Inl (TypeError ''list indices must be integers or slices, not str'')"
| "py_getitem (PStr s) k =
     Inl (TypeError (''string indices must be integers, not '' @ quoted ''str''))"
| "py_getitem v k =
     Inl (TypeError (quoted (type_name v) @ '' object is not subscriptable''))"

text \<open>\<^verbatim>\<open>obj[0]\<close>. The keys of a dictionary are strings, so the integer 0 is never
  one of them.\<close>

fun py_first :: "pyval \<Rightarrow> exn + pyval" where
  "py_first (PList []) = Inl (IndexError ''list index out of range'')"
| "py_first (PList (x # xs)) = Inr x"
| "py_first (PStr []) = Inl (IndexError ''string index out of range'')"
| "py_first (PStr (c # s)) = Inr (PStr [c])"
| "py_first (PDict d) = Inl (KeyError ''0'')"
| "py_first v = Inl (TypeError (quoted (type_name v) @ '' object is not subscriptable''))"

text \<open>\<^verbatim>\<open>obj[:n]\<close>: a negative bound counts from the end. A dictionary takes the slice
  for a key, which is not hashable.\<close>

definition slice_to :: "int \<Rightarrow> 'a list \<Rightarrow> 'a list" where
  "slice_to n xs = (if 0 \<le> n then take (nat n) xs else take (length xs - nat (- n)) xs)"

fun py_slice_to :: "pyval \<Rightarrow> int \<Rightarrow> exn + pyval" where
  "py_slice_to (PList xs) n = Inr (PList (slice_to n xs))"
| "py_slice_to (PStr s) n = Inr (PStr (slice_to n s))"
| "py_slice_to (PDict d) n = Inl (TypeError (''unhashable type: '' @ quoted ''slice''))"
| "py_slice_to v n = Inl (TypeError (quoted (type_name v) @ '' object is not subscriptable''))"

text \<open>The items a \<^verbatim>\<open>for\<close> loop visits: list elements, the characters of a string, the
  keys of a dictionary.\<close>

fun py_iter :: "pyval \<Rightarrow> exn + pyval list" where
  "py_iter (PList xs) = Inr xs"
| "py_iter (PStr s) = Inr (map (\<lambda>c. PStr [c]) s)"
| "py_iter (PDict d) = Inr (map (\<lambda>kv. PStr (fst kv)) d)"
| "py_iter v = Inl (TypeError (quoted (type_name v) @ '' object is not iterable''))"

text \<open>
  \<^verbatim>\<open>str(x)\<close>. The decimal form of an integer and the fixed forms are written out;
  the text of a float, a list or a dictionary is their \<^verbatim>\<open>repr\<close>, which the runtime
  supplies and the model takes as the parameter \<open>repr\<close>.
\<close>

fun digits :: "nat \<Rightarrow> string" where
  "digits n =
     (if n < 10 then [''0123456789'' ! n]
      else digits (n div 10) @ [''0123456789'' ! (n mod 10)])"

definition str_int :: "int \<Rightarrow> string" where
  "str_int i = (if i < 0 then ''-'' @ digits (nat (- i)) else digits (nat i))"

fun py_str :: "(pyval \<Rightarrow> string) \<Rightarrow> pyval \<Rightarrow> string" where
  "py_str repr PNone = ''None''"
| "py_str repr (PBool b) = (if b then ''True'' else ''False'')"
| "py_str repr (PInt i) = str_int i"
| "py_str repr (PStr s) = s"
| "py_str repr v = repr v"

text \<open>\<^verbatim>\<open>s.strip()\<close> removes leading and trailing white space.\<close>

definition is_space :: "char \<Rightarrow> bool" where
  "is_space c = (of_char c \<in> {9, 10, 11, 12, 13, 28, 29, 30, 31, 32, 133, 160 :: nat})"

definition strip :: "string \<Rightarrow> string" where
  "strip s = rev (dropWhile is_space (rev (dropWhile is_space s)))"


section \<open>The query client\<close>

text \<open>
  \<^verbatim>\<open>BitqueryClient\<close> of \<^verbatim>\<open>mcp_server.py\<close>. The value of the environment variable
  \<^verbatim>\<open>BITQUERY_API_KEY\<close> is the parameter \<open>api_key\<close> (the empty string when unset).
  The HTTP library is the parameter \<open>transport\<close>: given the request of
  \<^verbatim>\<open>client.post\<close> it raises or returns a response, whose \<open>json_result\<close> is what
  \<^verbatim>\<open>response.json()\<close> does (raise or return the decoded body). The requests sent so
  far are threaded through as a list. The calls to the optional logging sink
  \<^verbatim>\<open>ctx\<close> do not take part in any result and are left out.
\<close>

definition BITQUERY_API_URL :: string where
  "BITQUERY_API_URL = ''https://streaming.bitquery.io/graphql''"

definition FOURMEME_PROXY_ADDRESS :: string where
  "FOURMEME_PROXY_ADDRESS = ''0x5c952063c7fc8610FFDB798152D69F0B9550762b''"

record request =
  req_url :: string
  req_json :: pyval
  req_headers :: "(string \<times> string) list"
  req_timeout :: int

record response =
  status_code :: int
  body_text :: string
  json_result :: "exn + pyval"

type_synonym transport = "request \<Rightarrow> exn + response"

definition client_headers :: "string \<Rightarrow> (string \<times> string) list" where
  "client_headers api_key =
     [(''Content-Type'', ''application/json'')] @
     (if api_key \<noteq> [] then
        [(''X-API-KEY'', api_key), (''Authorization'', ''Bearer '' @ api_key)]
      else [])"

definition error_envelope :: "string \<Rightarrow> pyval" where
  "error_envelope msg = PDict [(''error'', PStr msg)]"

text \<open>
  The names bound in the module: those of the \<^verbatim>\<open>import\<close> statements at its head and
  those it defines. Reading any other global name raises \<^verbatim>\<open>NameError\<close>.
\<close>

definition module_names :: "string list" where
  "module_names =
     [''FastMCP'', ''Context'', ''httpx'', ''Optional'', ''Dict'', ''List'', ''Any'',
      ''datetime'', ''os'', ''load_dotenv'', ''mcp'', ''BITQUERY_API_URL'',
      ''BITQUERY_API_KEY'', ''FOURMEME_PROXY_ADDRESS'', ''BitqueryClient'', ''bitquery'',
      ''get_trending_tokens'', ''get_bonding_curve_progress'', ''get_latest_trades'',
      ''get_token_migration_status'', ''mcp4meme_config'', ''fourmeme_proxy_config'']"

definition read_global :: "string \<Rightarrow> exn + unit" where
  "read_global name =
     (if name \<in> set module_names then Inr ()
      else Inl (NameError (''name '' @ quoted name @ '' is not defined'')))"

text \<open>
  The inner \<^verbatim>\<open>try\<close>: \<^verbatim>\<open>return response.json()\<close> under
  \<^verbatim>\<open>except json.JSONDecodeError\<close>. When \<^verbatim>\<open>response.json()\<close> raises, the
  expression \<^verbatim>\<open>json.JSONDecodeError\<close> of the \<^verbatim>\<open>except\<close> clause is evaluated first,
  which reads the global \<^verbatim>\<open>json\<close>; only then is the exception matched against it.
\<close>

definition decode_body :: "response \<Rightarrow> exn + pyval" where
  "decode_body r =
     (case json_result r of
        Inr v \<Rightarrow> Inr v
      | Inl e \<Rightarrow>
          bind_res (read_global ''json'') (\<lambda>_.
            case e of
              JSONDecodeError m \<Rightarrow>
                Inr (error_envelope (''Invalid JSON response: '' @ take 200 (body_text r) @ ''...''))
            | _ \<Rightarrow> Inl e))"

text \<open>The outer \<^verbatim>\<open>try\<close> block: one POST, then the checks on the response.\<close>

definition post_and_check ::
  "string \<Rightarrow> transport \<Rightarrow> pyval \<Rightarrow> request list \<Rightarrow> (exn + pyval) \<times> request list" where
  "post_and_check api_key transport payload sent =
     (let req = \<lparr>req_url = BITQUERY_API_URL, req_json = payload,
                 req_headers = client_headers api_key, req_timeout = 30\<rparr>
      in (bind_res (transport req) (\<lambda>r.
            if status_code r \<noteq> 200 then
              Inr (error_envelope (''HTTP '' @ str_int (status_code r) @ '': '' @ body_text r))
            else if strip (body_text r) = [] then
              Inr (error_envelope ''Empty response from API'')
            else decode_body r),
          sent @ [req]))"

definition execute_query ::
  "string \<Rightarrow> transport \<Rightarrow> string \<Rightarrow> pyval \<Rightarrow> request list \<Rightarrow> (exn + pyval) \<times> request list" where
  "execute_query api_key transport query variables sent =
     (let payload = PDict ([(''query'', PStr query)] @
                           (if truthy variables then [(''variables'', variables)] else []))
      in if api_key = [] then (Inr (error_envelope ''BITQUERY_API_KEY not provided''), sent)
         else
           (case post_and_check api_key transport payload sent of
              (Inl e, sent') \<Rightarrow> (Inr (error_envelope (''Request failed: '' @ exn_str e)), sent')
            | (Inr v, sent') \<Rightarrow> (Inr v, sent')))"

section \<open>The four operations\<close>

text \<open>The GraphQL documents, character for character.\<close>

definition trending_tokens_query :: string where
  \<open>trending_tokens_query = concat
    [''\<newline>'',
     ''    query GetTrendingTokens($limit: Int!, $time_24hr_ago: DateTime) {\<newline>'',
     ''      EVM(network: bsc) {\<newline>'',
     ''        DEXTradeByTokens(\<newline>'',
     ''          limit: {count: $limit}\<newline>'',
     ''          orderBy: {descendingByField: "trades_24hr"}\<newline>'',
     ''          where: {\<newline>'',
     ''            Trade: {Success: true}\<newline>'',
     ''            Block: {Time: {since: $time_24hr_ago}}\<newline>'',
     ''          }\<newline>'',
     ''        ) {\<newline>'',
     ''          Trade {\<newline>'',
     ''            Currency {\<newline>'',
     ''              Name\<newline>'',
     ''              Symbol\<newline>'',
     ''              SmartContract\<newline>'',
     ''            }\<newline>'',
     ''          }\<newline>'',
     ''          volume_24hr: sum(of: Trade_Side_AmountInUSD)\<newline>'',
     ''          trades_24hr: count\<newline>'',
     ''        }\<newline>'',
     ''      }\<newline>'',
     ''    }\<newline>'',
     ''    '']\<close>

definition bonding_curve_query :: string where
  \<open>bonding_curve_query = concat
    [''\<newline>'',
     ''    query GetBondingCurveProgress($tokenAddress: String!) {\<newline>'',
     ''      EVM(network: bsc) {\<newline>'',
     ''        Transfers(\<newline>'',
     ''          where: {\<newline>'',
     ''            Transfer: {\<newline>'',
     ''              Currency: {SmartContract: {is: $tokenAddress}}\<newline>'',
     ''              Receiver: {is: "0x5c952063c7fc8610FFDB798152D69F0B9550762b"}\<newline>'',
     ''            }\<newline>'',
     ''          }\<newline>'',
     ''          orderBy: {descendingByField: "Block_Time"}\<newline>'',
     ''          limit: {count: 1}\<newline>'',
     ''        ) {\<newline>'',
     ''          Transfer {\<newline>'',
     ''            Amount\<newline>'',
     ''            Currency {\<newline>'',
     ''              Name\<newline>'',
     ''              Symbol\<newline>'',
     ''              SmartContract\<newline>'',
     ''            }\<newline>'',
     ''          }\<newline>'',
     ''          Block {\<newline>'',
     ''            Time\<newline>'',
     ''          }\<newline>'',
     ''        }\<newline>'',
     ''      }\<newline>'',
     ''    }\<newline>'',
     ''    '']\<close>

definition latest_trades_query :: string where
  \<open>latest_trades_query = concat
    [''\<newline>'',
     ''    query GetLatestTrades($tokenAddress: String!, $limit: Int!) {\<newline>'',
     ''      EVM(network: bsc) {\<newline>'',
     ''        DEXTrades(\<newline>'',
     ''          where: {\<newline>'',
     ''            Trade: {\<newline>'',
     ''              Buy: {Currency: {SmartContract: {is: $tokenAddress}}}\<newline>'',
     ''              Dex: {ProtocolName: {is: "fourmeme_v1"}}\<newline>'',
     ''              Success: true\<newline>'',
     ''            }\<newline>'',
     ''          }\<newline>'',
     ''          orderBy: {descendingByField: "Block_Time"}\<newline>'',
     ''          limit: {count: $limit}\<newline>'',
     ''        ) {\<newline>'',
     ''          Transaction {\<newline>'',
     ''            Hash\<newline>'',
     ''          }\<newline>'',
     ''          Block {\<newline>'',
     ''            Time\<newline>'',
     ''            Number\<newline>'',
     ''          }\<newline>'',
     ''          Trade {\<newline>'',
     ''            Buy {\<newline>'',
     ''              Buyer\<newline>'',
     ''              Amount\<newline>'',
     ''              AmountInUSD\<newline>'',
     ''              Price\<newline>'',
     ''              Currency {\<newline>'',
     ''                Symbol\<newline>'',
     ''                Name\<newline>'',
     ''              }\<newline>'',
     ''            }\<newline>'',
     ''            Sell {\<newline>'',
     ''              Seller\<newline>'',
     ''              Amount\<newline>'',
     ''              Currency {\<newline>'',
     ''                Symbol\<newline>'',
     ''                Name\<newline>'',
     ''              }\<newline>'',
     ''            }\<newline>'',
     ''          }\<newline>'',
     ''        }\<newline>'',
     ''      }\<newline>'',
     ''    }\<newline>'',
     ''    '']\<close>

definition migration_status_query :: string where
  \<open>migration_status_query = concat
    [''\<newline>'',
     ''    query GetMigrationStatus($tokenAddress: String!) {\<newline>'',
     ''      EVM(network: bsc) {\<newline>'',
     ''        DEXTrades(\<newline>'',
     ''          where: {\<newline>'',
     ''            Trade: {\<newline>'',
     ''              Buy: {Currency: {SmartContract: {is: $tokenAddress}}}\<newline>'',
     ''              Dex: {ProtocolName: {not: "fourmeme_v1"}}\<newline>'',
     ''              Success: true\<newline>'',
     ''            }\<newline>'',
     ''          }\<newline>'',
     ''          orderBy: {ascendingByField: "Block_Time"}\<newline>'',
     ''          limit: {count: 5}\<newline>'',
     ''        ) {\<newline>'',
     ''          Trade {\<newline>'',
     ''            Dex {\<newline>'',
     ''              ProtocolName\<newline>'',
     ''              SmartContract\<newline>'',
     ''            }\<newline>'',
     ''            Buy {\<newline>'',
     ''              Currency {\<newline>'',
     ''                Symbol\<newline>'',
     ''                Name\<newline>'',
     ''              }\<newline>'',
     ''            }\<newline>'',
     ''            Sell {\<newline>'',
     ''              Currency {\<newline>'',
     ''                Symbol\<newline>'',
     ''                Name\<newline>'',
     ''              }\<newline>'',
     ''            }\<newline>'',
     ''          }\<newline>'',
     ''          Block {\<newline>'',
     ''            Time\<newline>'',
     ''          }\<newline>'',
     ''        }\<newline>'',
     ''      }\<newline>'',
     ''    }\<newline>'',
     ''    '']\<close>

text \<open>
  \<^verbatim>\<open>result.get("data", {}).get("EVM", {}).get(key, [])\<close>
\<close>

definition descend :: "pyval \<Rightarrow> string \<Rightarrow> exn + pyval" where
  "descend result key =
     bind_res (py_get result ''data'' (PDict [])) (\<lambda>d.
     bind_res (py_get d ''EVM'' (PDict [])) (\<lambda>evm.
     py_get evm key (PList [])))"

subsection \<open>\<^verbatim>\<open>get_trending_tokens\<close>\<close>

text \<open>One pass of the loop body: the record appended for the row at position \<open>i\<close>.\<close>

definition token_summary :: "(pyval \<Rightarrow> string) \<Rightarrow> nat \<Rightarrow> pyval \<Rightarrow> exn + pyval" where
  "token_summary repr i trade =
     bind_res (py_get trade ''Trade'' (PDict [])) (\<lambda>t.
     bind_res (py_get t ''Currency'' (PDict [])) (\<lambda>token_info.
     bind_res (py_get trade ''trades_24hr'' (PInt 0)) (\<lambda>trade_count.
     bind_res (py_get trade ''volume_24hr'' (PInt 0)) (\<lambda>volume_24hr.
     bind_res (py_get token_info ''SmartContract'' (PStr [])) (\<lambda>address.
     bind_res (py_get token_info ''Symbol'' (PStr [])) (\<lambda>symbol.
     bind_res (py_get token_info ''Name'' (PStr [])) (\<lambda>name.
     Inr (PDict
       [(''rank'', PInt (int i + 1)),
        (''token_address'', address),
        (''symbol'', symbol),
        (''name'', name),
        (''trade_count'', trade_count),
        (''volume_24hr_usd'', PStr (py_str repr volume_24hr))]))))))))"

text \<open>The \<^verbatim>\<open>for i, trade in enumerate(...)\<close> loop, appending to \<open>trending_tokens\<close>.\<close>

fun trending_loop ::
  "(pyval \<Rightarrow> string) \<Rightarrow> nat \<Rightarrow> pyval list \<Rightarrow> pyval list \<Rightarrow> exn + pyval list" where
  "trending_loop repr i trending_tokens [] = Inr trending_tokens"
| "trending_loop repr i trending_tokens (trade # rest) =
     bind_res (token_summary repr i trade) (\<lambda>row.
     trending_loop repr (Suc i) (trending_tokens @ [row]) rest)"

text \<open>The body of the \<^verbatim>\<open>try\<close> block.\<close>

definition parse_trending :: "(pyval \<Rightarrow> string) \<Rightarrow> pyval \<Rightarrow> int \<Rightarrow> exn + pyval list" where
  "parse_trending repr result limit =
     bind_res (descend result ''DEXTradeByTokens'') (\<lambda>trades_data.
     bind_res (py_slice_to trades_data limit) (\<lambda>sliced.
     bind_res (py_iter sliced) (\<lambda>rows.
     trending_loop repr 0 [] rows)))"

text \<open>Everything after the call of the client.\<close>

definition normalize_trending :: "(pyval \<Rightarrow> string) \<Rightarrow> pyval \<Rightarrow> int \<Rightarrow> exn + pyval" where
  "normalize_trending repr result limit =
     bind_res (py_contains result ''error'') (\<lambda>failed.
       if failed then
         bind_res (py_getitem result ''error'') (\<lambda>err.
         Inr (PDict [(''trending_tokens'', PList []), (''error'', err)]))
       else
         (case parse_trending repr result limit of
            Inl e \<Rightarrow>
              Inr (PDict [(''trending_tokens'', PList []),
                          (''error'', PStr (''Failed to parse API response: '' @ exn_str e))])
          | Inr trending_tokens \<Rightarrow>
              Inr (PDict [(''trending_tokens'', PList trending_tokens),
                          (''total_found'', PInt (int (length trending_tokens)))])))"

text \<open>
  The operation. \<open>iso_time\<close> is the text of
  \<^verbatim>\<open>(datetime.utcnow() - timedelta(hours=24)).isoformat()\<close>, read from the clock.
\<close>

definition get_trending_tokens ::
  "string \<Rightarrow> transport \<Rightarrow> (pyval \<Rightarrow> string) \<Rightarrow> string \<Rightarrow> int \<Rightarrow> request list
     \<Rightarrow> (exn + pyval) \<times> request list" where
  "get_trending_tokens api_key transport repr iso_time limit sent =
     (let time_24hr_ago = iso_time @ ''Z'';
          (result, sent') = execute_query api_key transport trending_tokens_query
             (PDict [(''limit'', PInt limit), (''time_24hr_ago'', PStr time_24hr_ago)]) sent
      in (bind_res result (\<lambda>r. normalize_trending repr r limit), sent'))"

subsection \<open>\<^verbatim>\<open>get_bonding_curve_progress\<close>\<close>

definition mock_progress :: rat where
  "mock_progress = 75.5"

definition progress_status :: "rat \<Rightarrow> string" where
  "progress_status p =
     (if p < 50 then ''early''
      else if p < 90 then ''active''
      else if p < 95 then ''approaching_graduation''
      else ''graduated'')"

definition parse_bonding :: "string \<Rightarrow> pyval \<Rightarrow> exn + pyval" where
  "parse_bonding token_address result =
     bind_res (descend result ''Transfers'') (\<lambda>transfers_data.
       if \<not> truthy transfers_data then
         Inr (PDict
           [(''token_address'', PStr token_address),
            (''progress_percentage'', PInt 0),
            (''status'', PStr ''early''),
            (''message'', PStr ''No transfers to Four.meme contract found'')])
       else
         (let status = progress_status mock_progress in
          bind_res (py_first transfers_data) (\<lambda>transfer_info.
          bind_res (py_get transfer_info ''Transfer'' (PDict [])) (\<lambda>t.
          bind_res (py_get t ''Currency'' (PDict [])) (\<lambda>token_info.
          bind_res (py_get token_info ''Symbol'' (PStr [])) (\<lambda>symbol.
          bind_res (py_get token_info ''Name'' (PStr [])) (\<lambda>name.
          bind_res (py_get transfer_info ''Block'' (PDict [])) (\<lambda>block.
          bind_res (py_get block ''Time'' (PStr [])) (\<lambda>last_activity.
          Inr (PDict
            [(''token_address'', PStr token_address),
             (''symbol'', symbol),
             (''name'', name),
             (''progress_percentage'', PFloat mock_progress),
             (''status'', PStr status),
             (''graduation_threshold'', PFloat 95.0),
             (''last_activity'', last_activity)]))))))))))"

definition normalize_bonding :: "string \<Rightarrow> pyval \<Rightarrow> exn + pyval" where
  "normalize_bonding token_address result =
     bind_res (py_contains result ''error'') (\<lambda>failed.
       if failed then
         bind_res (py_getitem result ''error'') (\<lambda>err.
         Inr (PDict
           [(''token_address'', PStr token_address),
            (''progress_percentage'', PInt 0),
            (''status'', PStr ''unknown''),
            (''error'', err)]))
       else
         (case parse_bonding token_address result of
            Inl e \<Rightarrow>
              Inr (PDict
                [(''token_address'', PStr token_address),
                 (''progress_percentage'', PInt 0),
                 (''status'', PStr ''unknown''),
                 (''error'', PStr (''Failed to parse response: '' @ exn_str e))])
          | Inr record \<Rightarrow> Inr record))"

definition get_bonding_curve_progress ::
  "string \<Rightarrow> transport \<Rightarrow> string \<Rightarrow> request list \<Rightarrow> (exn + pyval) \<times> request list" where
  "get_bonding_curve_progress api_key transport token_address sent =
     (let (result, sent') = execute_query api_key transport bonding_curve_query
             (PDict [(''tokenAddress'', PStr token_address)]) sent
      in (bind_res result (\<lambda>r. normalize_bonding token_address r), sent'))"

subsection \<open>\<^verbatim>\<open>get_latest_trades\<close>\<close>

definition trade_record :: "(pyval \<Rightarrow> string) \<Rightarrow> pyval \<Rightarrow> exn + pyval" where
  "trade_record repr trade =
     bind_res (py_get trade ''Trade'' (PDict [])) (\<lambda>trade_info.
     bind_res (py_get trade_info ''Buy'' (PDict [])) (\<lambda>buy_info.
     bind_res (py_get trade_info ''Sell'' (PDict [])) (\<lambda>sell_info.
     bind_res (py_get trade ''Transaction'' (PDict [])) (\<lambda>tx.
     bind_res (py_get tx ''Hash'' (PStr [])) (\<lambda>transaction_hash.
     bind_res (py_get trade ''Block'' (PDict [])) (\<lambda>block.
     bind_res (py_get block ''Time'' (PStr [])) (\<lambda>timestamp.
     bind_res (py_get trade ''Block'' (PDict [])) (\<lambda>block'.
     bind_res (py_get block' ''Number'' (PInt 0)) (\<lambda>block_number.
     bind_res (py_get buy_info ''Buyer'' (PStr [])) (\<lambda>buyer.
     bind_res (py_get sell_info ''Seller'' (PStr [])) (\<lambda>seller.
     bind_res (py_get buy_info ''Amount'' (PInt 0)) (\<lambda>buy_amount.
     bind_res (py_get sell_info ''Amount'' (PInt 0)) (\<lambda>sell_amount.
     bind_res (py_get buy_info ''AmountInUSD'' (PInt 0)) (\<lambda>price_usd.
     bind_res (py_get buy_info ''Currency'' (PDict [])) (\<lambda>buy_currency.
     bind_res (py_get buy_currency ''Symbol'' (PStr [])) (\<lambda>buy_token.
     bind_res (py_get sell_info ''Currency'' (PDict [])) (\<lambda>sell_currency.
     bind_res (py_get sell_currency ''Symbol'' (PStr [])) (\<lambda>sell_token.
     Inr (PDict
       [(''transaction_hash'', transaction_hash),
        (''timestamp'', timestamp),
        (''block_number'', block_number),
        (''buyer'', buyer),
        (''seller'', seller),
        (''buy_amount'', PStr (py_str repr buy_amount)),
        (''sell_amount'', PStr (py_str repr sell_amount)),
        (''price_usd'', PStr (py_str repr price_usd)),
        (''buy_token'', buy_token),
        (''sell_token'', sell_token)])))))))))))))))))))"

fun trades_loop :: "(pyval \<Rightarrow> string) \<Rightarrow> pyval list \<Rightarrow> pyval list \<Rightarrow> exn + pyval list" where
  "trades_loop repr trades [] = Inr trades"
| "trades_loop repr trades (trade # rest) =
     bind_res (trade_record repr trade) (\<lambda>row. trades_loop repr (trades @ [row]) rest)"

definition parse_trades :: "(pyval \<Rightarrow> string) \<Rightarrow> string \<Rightarrow> pyval \<Rightarrow> exn + pyval" where
  "parse_trades repr token_address result =
     bind_res (descend result ''DEXTrades'') (\<lambda>trades_data.
     bind_res (py_iter trades_data) (\<lambda>rows.
     bind_res (trades_loop repr [] rows) (\<lambda>trades.
     Inr (PDict
       [(''token_address'', PStr token_address),
        (''trades'', PList trades),
        (''total_trades'', PInt (int (length trades)))]))))"

definition normalize_trades :: "(pyval \<Rightarrow> string) \<Rightarrow> string \<Rightarrow> pyval \<Rightarrow> exn + pyval" where
  "normalize_trades repr token_address result =
     bind_res (py_contains result ''error'') (\<lambda>failed.
       if failed then
         bind_res (py_getitem result ''error'') (\<lambda>err.
         Inr (PDict
           [(''token_address'', PStr token_address),
            (''trades'', PList []),
            (''error'', err)]))
       else
         (case parse_trades repr token_address result of
            Inl e \<Rightarrow>
              Inr (PDict
                [(''token_address'', PStr token_address),
                 (''trades'', PList []),
                 (''error'', PStr (''Failed to parse response: '' @ exn_str e))])
          | Inr record \<Rightarrow> Inr record))"

definition get_latest_trades ::
  "string \<Rightarrow> transport \<Rightarrow> (pyval \<Rightarrow> string) \<Rightarrow> string \<Rightarrow> int \<Rightarrow> request list
     \<Rightarrow> (exn + pyval) \<times> request list" where
  "get_latest_trades api_key transport repr token_address limit sent =
     (let (result, sent') = execute_query api_key transport latest_trades_query
             (PDict [(''tokenAddress'', PStr token_address), (''limit'', PInt limit)]) sent
      in (bind_res result (\<lambda>r. normalize_trades repr token_address r), sent'))"

subsection \<open>\<^verbatim>\<open>get_token_migration_status\<close>\<close>

text \<open>The dictionary \<open>pair_info\<close> built in each pass of the loop.\<close>

definition pair_info_of :: "pyval \<Rightarrow> pyval \<Rightarrow> exn + pyval" where
  "pair_info_of trade_info dex_info =
     bind_res (py_get dex_info ''ProtocolName'' (PStr [])) (\<lambda>dex_name.
     bind_res (py_get dex_info ''SmartContract'' (PStr [])) (\<lambda>dex_contract.
     bind_res (py_get trade_info ''Buy'' (PDict [])) (\<lambda>buy.
     bind_res (py_get buy ''Currency'' (PDict [])) (\<lambda>buy_currency.
     bind_res (py_get buy_currency ''Symbol'' (PStr [])) (\<lambda>buy_token.
     bind_res (py_get trade_info ''Sell'' (PDict [])) (\<lambda>sell.
     bind_res (py_get sell ''Currency'' (PDict [])) (\<lambda>sell_currency.
     bind_res (py_get sell_currency ''Symbol'' (PStr [])) (\<lambda>sell_token.
     Inr (PDict
       [(''dex_name'', dex_name),
        (''dex_contract'', dex_contract),
        (''buy_token'', buy_token),
        (''sell_token'', sell_token)])))))))))"

text \<open>\<^verbatim>\<open>x in xs\<close> on a list compares each element with \<open>x\<close>.\<close>

definition list_contains :: "pyval list \<Rightarrow> pyval \<Rightarrow> bool" where
  "list_contains xs x = list_ex (\<lambda>item. py_eq item x) xs"

text \<open>
  The loop over \<open>trades_data\<close>; its state is the pair of \<open>dex_pairs\<close> and
  \<open>migration_timestamp\<close>.
\<close>

fun migration_loop :: "pyval list \<Rightarrow> pyval \<Rightarrow> pyval list \<Rightarrow> exn + (pyval list \<times> pyval)" where
  "migration_loop dex_pairs migration_timestamp [] = Inr (dex_pairs, migration_timestamp)"
| "migration_loop dex_pairs migration_timestamp (trade # rest) =
     bind_res (py_get trade ''Trade'' (PDict [])) (\<lambda>trade_info.
     bind_res (py_get trade_info ''Dex'' (PDict [])) (\<lambda>dex_info.
     bind_res
       (if \<not> truthy migration_timestamp then
          bind_res (py_get trade ''Block'' (PDict [])) (\<lambda>block.
          py_get block ''Time'' (PStr []))
        else Inr migration_timestamp) (\<lambda>migration_timestamp'.
     bind_res (pair_info_of trade_info dex_info) (\<lambda>pair_info.
     migration_loop
       (if \<not> list_contains dex_pairs pair_info then dex_pairs @ [pair_info] else dex_pairs)
       migration_timestamp' rest))))"

definition parse_migration :: "string \<Rightarrow> pyval \<Rightarrow> exn + pyval" where
  "parse_migration token_address result =
     bind_res (descend result ''DEXTrades'') (\<lambda>trades_data.
       if \<not> truthy trades_data then
         Inr (PDict
           [(''token_address'', PStr token_address),
            (''is_migrated'', PBool False),
            (''status'', PStr ''bonding_curve_only''),
            (''dex_pairs'', PList []),
            (''message'', PStr ''Token still trading only on Four.meme bonding curve'')])
       else
         bind_res (py_iter trades_data) (\<lambda>rows.
         bind_res (migration_loop [] PNone rows) (\<lambda>(dex_pairs, migration_timestamp).
         Inr (PDict
           [(''token_address'', PStr token_address),
            (''is_migrated'', PBool True),
            (''status'', PStr ''migrated_to_dex''),
            (''migration_timestamp'', migration_timestamp),
            (''dex_pairs'', PList dex_pairs),
            (''total_dex_pairs'', PInt (int (length dex_pairs)))]))))"

definition normalize_migration :: "string \<Rightarrow> pyval \<Rightarrow> exn + pyval" where
  "normalize_migration token_address result =
     bind_res (py_contains result ''error'') (\<lambda>failed.
       if failed then
         bind_res (py_getitem result ''error'') (\<lambda>err.
         Inr (PDict
           [(''token_address'', PStr token_address),
            (''is_migrated'', PBool False),
            (''dex_pairs'', PList []),
            (''error'', err)]))
       else
         (case parse_migration token_address result of
            Inl e \<Rightarrow>
              Inr (PDict
                [(''token_address'', PStr token_address),
                 (''is_migrated'', PBool False),
                 (''dex_pairs'', PList []),
                 (''error'', PStr (''Failed to parse response: '' @ exn_str e))])
          | Inr record \<Rightarrow> Inr record))"

definition get_token_migration_status ::
  "string \<Rightarrow> transport \<Rightarrow> string \<Rightarrow> request list \<Rightarrow> (exn + pyval) \<times> request list" where
  "get_token_migration_status api_key transport token_address sent =
     (let (result, sent') = execute_query api_key transport migration_status_query
             (PDict [(''tokenAddress'', PStr token_address)]) sent
      in (bind_res result (\<lambda>r. normalize_migration token_address r), sent'))"

section \<open>Sample inputs\<close>

text \<open>A transport that answers every request with status 200 and the given decoded body.\<close>

definition answering :: "pyval \<Rightarrow> transport" where
  "answering body =
     (\<lambda>req. Inr \<lparr>status_code = 200, body_text = ''{...}'', json_result = Inr body\<rparr>)"

text \<open>A transport whose answer has status 200 and a body that is not JSON.\<close>

definition answering_html :: transport where
  "answering_html =
     (\<lambda>req. Inr \<lparr>status_code = 200, body_text = ''<html>oops</html>'',
                  json_result = Inl (JSONDecodeError ''Expecting value: line 1 column 1 (char 0)'')\<rparr>)"

text \<open>A transport whose answer has status 200 and the JSON body \<^verbatim>\<open>5\<close>.\<close>

definition answering_five :: transport where
  "answering_five =
     (\<lambda>req. Inr \<lparr>status_code = 200, body_text = ''5'', json_result = Inr (PInt 5)\<rparr>)"

text \<open>A stand-in for \<^verbatim>\<open>repr\<close> at sample inputs, none of which reaches it with a float
  or a container whose text matters.\<close>

definition stub_repr :: "pyval \<Rightarrow> string" where
  "stub_repr v = ''<'' @ type_name v @ ''>''"

definition no_trades_payload :: pyval where
  "no_trades_payload = PDict [(''data'', PDict [(''EVM'', PDict [(''DEXTrades'', PList [])])])]"

definition no_transfers_payload :: pyval where
  "no_transfers_payload = PDict [(''data'', PDict [(''EVM'', PDict [(''Transfers'', PList [])])])]"

definition null_data_payload :: pyval where
  "null_data_payload = PDict [(''data'', PNone)]"

definition none_has_no_get :: exn where
  "none_has_no_get =
     AttributeError (quoted ''NoneType'' @ '' object has no attribute '' @ quoted ''get'')"

section \<open>Properties\<close>

subsection \<open>Basic facts\<close>

lemma bind_res_Inl [simp]: "bind_res (Inl e) f = Inl e"
  by (simp add: bind_res_def)

lemma bind_res_Inr [simp]: "bind_res (Inr x) f = f x"
  by (simp add: bind_res_def)

lemma py_contains_envelope [simp]: "py_contains (error_envelope m) ''error'' = Inr True"
  by (simp add: error_envelope_def)

lemma py_getitem_envelope [simp]: "py_getitem (error_envelope m) ''error'' = Inr (PStr m)"
  by (simp add: error_envelope_def)

text \<open>The client never raises.\<close>

lemma execute_query_returns:
  "\<exists>v. fst (execute_query api_key transport query variables sent) = Inr v"
  by (simp add: execute_query_def Let_def split: prod.splits sum.splits)

lemma execute_query_answering:
  "api_key \<noteq> [] \<Longrightarrow>
   fst (execute_query api_key (answering body) query variables sent) = Inr body"
  by (simp add: execute_query_def post_and_check_def decode_body_def answering_def
      strip_def is_space_def Let_def)

text \<open>Each operation is its normalizer applied to what the client returns.\<close>

lemma get_trending_tokens_via_client:
  "get_trending_tokens api_key transport repr iso_time limit sent =
     (bind_res (fst (execute_query api_key transport trending_tokens_query
         (PDict [(''limit'', PInt limit), (''time_24hr_ago'', PStr (iso_time @ ''Z''))]) sent))
        (\<lambda>r. normalize_trending repr r limit),
      snd (execute_query api_key transport trending_tokens_query
         (PDict [(''limit'', PInt limit), (''time_24hr_ago'', PStr (iso_time @ ''Z''))]) sent))"
  by (simp add: get_trending_tokens_def Let_def split: prod.splits)

lemma get_bonding_curve_progress_via_client:
  "get_bonding_curve_progress api_key transport token_address sent =
     (bind_res (fst (execute_query api_key transport bonding_curve_query
         (PDict [(''tokenAddress'', PStr token_address)]) sent))
        (normalize_bonding token_address),
      snd (execute_query api_key transport bonding_curve_query
         (PDict [(''tokenAddress'', PStr token_address)]) sent))"
  by (simp add: get_bonding_curve_progress_def split: prod.splits)

lemma get_latest_trades_via_client:
  "get_latest_trades api_key transport repr token_address limit sent =
     (bind_res (fst (execute_query api_key transport latest_trades_query
         (PDict [(''tokenAddress'', PStr token_address), (''limit'', PInt limit)]) sent))
        (normalize_trades repr token_address),
      snd (execute_query api_key transport latest_trades_query
         (PDict [(''tokenAddress'', PStr token_address), (''limit'', PInt limit)]) sent))"
  by (simp add: get_latest_trades_def split: prod.splits)

lemma get_token_migration_status_via_client:
  "get_token_migration_status api_key transport token_address sent =
     (bind_res (fst (execute_query api_key transport migration_status_query
         (PDict [(''tokenAddress'', PStr token_address)]) sent))
        (normalize_migration token_address),
      snd (execute_query api_key transport migration_status_query
         (PDict [(''tokenAddress'', PStr token_address)]) sent))"
  by (simp add: get_token_migration_status_def split: prod.splits)

subsection \<open>The client\<close>

text \<open>
  Claim C1, at the input where it fails. The claim: for every outcome of the transport
  \<^verbatim>\<open>execute_query\<close> returns a dictionary, either the decoded payload or one with an
  \<^verbatim>\<open>error\<close> key, and never raises. When the answer has status 200 and the body is
  the JSON number \<^verbatim>\<open>5\<close>, the client returns the integer 5, which is not a dictionary,
  and \<^verbatim>\<open>get_bonding_curve_progress\<close>, which tests \<^verbatim>\<open>"error" in result\<close> outside its
  \<^verbatim>\<open>try\<close> block, raises \<^verbatim>\<open>TypeError\<close> to its caller.
\<close>

theorem non_object_body_passes_through:
  "fst (execute_query ''secret'' answering_five bonding_curve_query
          (PDict [(''tokenAddress'', PStr ''0xabc'')]) []) = Inr (PInt 5)
   \<and> fst (get_bonding_curve_progress ''secret'' answering_five ''0xabc'' [])
     = Inl (TypeError (''argument of type '' @ quoted ''int'' @ '' is not iterable''))"
  by (simp add: execute_query_def post_and_check_def decode_body_def strip_def is_space_def
      Let_def get_bonding_curve_progress_def normalize_bonding_def answering_five_def)

text \<open>
  Claim C3, at the input where it fails. The claim: a 200 answer whose non-empty body
  does not parse as JSON gives the error \<^verbatim>\<open>"Invalid JSON response: "\<close> followed by the
  first 200 characters of the body and \<^verbatim>\<open>"..."\<close>. The module never imports \<^verbatim>\<open>json\<close>,
  so evaluating the clause \<^verbatim>\<open>except json.JSONDecodeError\<close> raises \<^verbatim>\<open>NameError\<close>,
  which the outer handler reports as a failed request.
\<close>

theorem undecodable_body_reported_as_request_failure:
  "fst (execute_query ''secret'' answering_html bonding_curve_query
          (PDict [(''tokenAddress'', PStr ''0xabc'')]) [])
   = Inr (PDict [(''error'',
            PStr (''Request failed: name '' @ quoted ''json'' @ '' is not defined''))])"
  by (simp add: execute_query_def post_and_check_def decode_body_def read_global_def
      module_names_def error_envelope_def strip_def is_space_def Let_def answering_html_def)

text \<open>
  Claim C4. With no API key configured, \<^verbatim>\<open>execute_query\<close> returns the error envelope
  \<^verbatim>\<open>BITQUERY_API_KEY not provided\<close> whatever the query, the variables and the transport
  are, and the list of requests sent is unchanged: no POST is made. Each of the four
  operations then returns its error variant carrying that string.
\<close>

theorem missing_credential_fails_fast:
  "execute_query [] transport query variables sent =
     (Inr (PDict [(''error'', PStr ''BITQUERY_API_KEY not provided'')]), sent)
   \<and> get_trending_tokens [] transport repr iso_time limit sent =
     (Inr (PDict [(''trending_tokens'', PList []),
                  (''error'', PStr ''BITQUERY_API_KEY not provided'')]), sent)
   \<and> get_bonding_curve_progress [] transport token_address sent =
     (Inr (PDict [(''token_address'', PStr token_address),
                  (''progress_percentage'', PInt 0),
                  (''status'', PStr ''unknown''),
                  (''error'', PStr ''BITQUERY_API_KEY not provided'')]), sent)
   \<and> get_latest_trades [] transport repr token_address limit sent =
     (Inr (PDict [(''token_address'', PStr token_address),
                  (''trades'', PList []),
                  (''error'', PStr ''BITQUERY_API_KEY not provided'')]), sent)
   \<and> get_token_migration_status [] transport token_address sent =
     (Inr (PDict [(''token_address'', PStr token_address),
                  (''is_migrated'', PBool False),
                  (''dex_pairs'', PList []),
                  (''error'', PStr ''BITQUERY_API_KEY not provided'')]), sent)"
proof -
  have q: "\<And>query variables. execute_query [] transport query variables sent =
      (Inr (error_envelope ''BITQUERY_API_KEY not provided''), sent)"
    by (simp add: execute_query_def)
  show ?thesis
    by (simp add: q get_trending_tokens_def get_bonding_curve_progress_def
        get_latest_trades_def get_token_migration_status_def normalize_trending_def
        normalize_bonding_def normalize_trades_def normalize_migration_def)
      (simp add: error_envelope_def)
qed

subsection \<open>Empty results\<close>

text \<open>
  Claim C7. When the payload has no \<^verbatim>\<open>error\<close> key and its list of trades off the
  bonding curve is empty, \<^verbatim>\<open>get_token_migration_status\<close> returns
  \<^verbatim>\<open>status = "bonding_curve_only"\<close>, \<^verbatim>\<open>is_migrated = False\<close>, an empty
  \<^verbatim>\<open>dex_pairs\<close> and a \<^verbatim>\<open>message\<close>; the record has no \<^verbatim>\<open>error\<close> field.
\<close>

theorem no_dex_trades_is_bonding_curve_only:
  assumes "fst (execute_query api_key transport migration_status_query
                  (PDict [(''tokenAddress'', PStr token_address)]) sent) = Inr result"
    and "py_contains result ''error'' = Inr False"
    and "descend result ''DEXTrades'' = Inr (PList [])"
  shows "fst (get_token_migration_status api_key transport token_address sent) =
     Inr (PDict
       [(''token_address'', PStr token_address),
        (''is_migrated'', PBool False),
        (''status'', PStr ''bonding_curve_only''),
        (''dex_pairs'', PList []),
        (''message'', PStr ''Token still trading only on Four.meme bonding curve'')])"
  using assms
  by (simp add: get_token_migration_status_via_client normalize_migration_def
      parse_migration_def)

theorem no_dex_trades_is_bonding_curve_only_witness:
  "fst (execute_query ''secret'' (answering no_trades_payload) migration_status_query
          (PDict [(''tokenAddress'', PStr ''0xabc'')]) []) = Inr no_trades_payload
   \<and> py_contains no_trades_payload ''error'' = Inr False
   \<and> descend no_trades_payload ''DEXTrades'' = Inr (PList [])
   \<and> fst (get_token_migration_status ''secret'' (answering no_trades_payload) ''0xabc'' []) =
     Inr (PDict
       [(''token_address'', PStr ''0xabc''),
        (''is_migrated'', PBool False),
        (''status'', PStr ''bonding_curve_only''),
        (''dex_pairs'', PList []),
        (''message'', PStr ''Token still trading only on Four.meme bonding curve'')])"
proof -
  have a: "fst (execute_query ''secret'' (answering no_trades_payload) migration_status_query
          (PDict [(''tokenAddress'', PStr ''0xabc'')]) []) = Inr no_trades_payload"
    by (simp add: execute_query_answering)
  have b: "py_contains no_trades_payload ''error'' = Inr False"
    by (simp add: no_trades_payload_def)
  have c: "descend no_trades_payload ''DEXTrades'' = Inr (PList [])"
    by (simp add: no_trades_payload_def descend_def)
  from no_dex_trades_is_bonding_curve_only [OF a b c] a b c show ?thesis by simp
qed

text \<open>
  Claim C8. When the payload has no \<^verbatim>\<open>error\<close> key and its \<^verbatim>\<open>Transfers\<close> list is
  empty, \<^verbatim>\<open>get_bonding_curve_progress\<close> returns \<^verbatim>\<open>status = "early"\<close> with
  \<^verbatim>\<open>progress_percentage = 0\<close> and a \<^verbatim>\<open>message\<close>; the record has no \<^verbatim>\<open>error\<close> field.
\<close>

theorem no_transfers_is_early:
  assumes "fst (execute_query api_key transport bonding_curve_query
                  (PDict [(''tokenAddress'', PStr token_address)]) sent) = Inr result"
    and "py_contains result ''error'' = Inr False"
    and "descend result ''Transfers'' = Inr (PList [])"
  shows "fst (get_bonding_curve_progress api_key transport token_address sent) =
     Inr (PDict
       [(''token_address'', PStr token_address),
        (''progress_percentage'', PInt 0),
        (''status'', PStr ''early''),
        (''message'', PStr ''No transfers to Four.meme contract found'')])"
  using assms
  by (simp add: get_bonding_curve_progress_via_client normalize_bonding_def parse_bonding_def)

theorem no_transfers_is_early_witness:
  "fst (execute_query ''secret'' (answering no_transfers_payload) bonding_curve_query
          (PDict [(''tokenAddress'', PStr ''0xabc'')]) []) = Inr no_transfers_payload
   \<and> py_contains no_transfers_payload ''error'' = Inr False
   \<and> descend no_transfers_payload ''Transfers'' = Inr (PList [])
   \<and> fst (get_bonding_curve_progress ''secret'' (answering no_transfers_payload) ''0xabc'' []) =
     Inr (PDict
       [(''token_address'', PStr ''0xabc''),
        (''progress_percentage'', PInt 0),
        (''status'', PStr ''early''),
        (''message'', PStr ''No transfers to Four.meme contract found'')])"
proof -
  have a: "fst (execute_query ''secret'' (answering no_transfers_payload) bonding_curve_query
          (PDict [(''tokenAddress'', PStr ''0xabc'')]) []) = Inr no_transfers_payload"
    by (simp add: execute_query_answering)
  have b: "py_contains no_transfers_payload ''error'' = Inr False"
    by (simp add: no_transfers_payload_def)
  have c: "descend no_transfers_payload ''Transfers'' = Inr (PList [])"
    by (simp add: no_transfers_payload_def descend_def)
  from no_transfers_is_early [OF a b c] a b c show ?thesis by simp
qed

subsection \<open>Failures while parsing\<close>

text \<open>
  Claim C9. Let the result of the client pass the test \<^verbatim>\<open>"error" in result\<close> with
  \<^verbatim>\<open>False\<close>. Whenever the body of a normalizer's \<^verbatim>\<open>try\<close> block raises \<open>e\<close> while
  descending into the payload or mapping its rows, the normalizer returns its error
  variant, whose error string is \<^verbatim>\<open>"Failed to parse response: "\<close> followed by
  \<^verbatim>\<open>str(e)\<close> (\<^verbatim>\<open>"Failed to parse API response: "\<close> for the trending tokens); and
  every normalizer returns, so nothing is raised to the caller.
\<close>

theorem parse_failure_becomes_error_record:
  assumes "py_contains result ''error'' = Inr False"
  shows "(parse_trending repr result limit = Inl e \<longrightarrow>
            normalize_trending repr result limit =
              Inr (PDict [(''trending_tokens'', PList []),
                          (''error'', PStr (''Failed to parse API response: '' @ exn_str e))]))
       \<and> (parse_bonding token_address result = Inl e \<longrightarrow>
            normalize_bonding token_address result =
              Inr (PDict [(''token_address'', PStr token_address),
                          (''progress_percentage'', PInt 0),
                          (''status'', PStr ''unknown''),
                          (''error'', PStr (''Failed to parse response: '' @ exn_str e))]))
       \<and> (parse_trades repr token_address result = Inl e \<longrightarrow>
            normalize_trades repr token_address result =
              Inr (PDict [(''token_address'', PStr token_address),
                          (''trades'', PList []),
                          (''error'', PStr (''Failed to parse response: '' @ exn_str e))]))
       \<and> (parse_migration token_address result = Inl e \<longrightarrow>
            normalize_migration token_address result =
              Inr (PDict [(''token_address'', PStr token_address),
                          (''is_migrated'', PBool False),
                          (''dex_pairs'', PList []),
                          (''error'', PStr (''Failed to parse response: '' @ exn_str e))]))
       \<and> (\<exists>v. normalize_trending repr result limit = Inr v)
       \<and> (\<exists>v. normalize_bonding token_address result = Inr v)
       \<and> (\<exists>v. normalize_trades repr token_address result = Inr v)
       \<and> (\<exists>v. normalize_migration token_address result = Inr v)"
  using assms
  by (simp add: normalize_trending_def normalize_bonding_def normalize_trades_def
      normalize_migration_def split: sum.splits)

theorem parse_failure_becomes_error_record_witness:
  "py_contains null_data_payload ''error'' = Inr False
   \<and> parse_trending stub_repr null_data_payload 10 = Inl none_has_no_get
   \<and> parse_bonding ''0xabc'' null_data_payload = Inl none_has_no_get
   \<and> parse_trades stub_repr ''0xabc'' null_data_payload = Inl none_has_no_get
   \<and> parse_migration ''0xabc'' null_data_payload = Inl none_has_no_get
   \<and> normalize_trending stub_repr null_data_payload 10 =
        Inr (PDict [(''trending_tokens'', PList []),
                    (''error'', PStr (''Failed to parse API response: '' @ exn_str none_has_no_get))])
   \<and> normalize_bonding ''0xabc'' null_data_payload =
        Inr (PDict [(''token_address'', PStr ''0xabc''),
                    (''progress_percentage'', PInt 0),
                    (''status'', PStr ''unknown''),
                    (''error'', PStr (''Failed to parse response: '' @ exn_str none_has_no_get))])
   \<and> normalize_trades stub_repr ''0xabc'' null_data_payload =
        Inr (PDict [(''token_address'', PStr ''0xabc''),
                    (''trades'', PList []),
                    (''error'', PStr (''Failed to parse response: '' @ exn_str none_has_no_get))])
   \<and> normalize_migration ''0xabc'' null_data_payload =
        Inr (PDict [(''token_address'', PStr ''0xabc''),
                    (''is_migrated'', PBool False),
                    (''dex_pairs'', PList []),
                    (''error'', PStr (''Failed to parse response: '' @ exn_str none_has_no_get))])"
proof -
  have a: "py_contains null_data_payload ''error'' = Inr False"
    by (simp add: null_data_payload_def)
  have b: "parse_trending stub_repr null_data_payload 10 = Inl none_has_no_get"
    by (simp add: parse_trending_def descend_def null_data_payload_def none_has_no_get_def)
  have c: "parse_bonding ''0xabc'' null_data_payload = Inl none_has_no_get"
    by (simp add: parse_bonding_def descend_def null_data_payload_def none_has_no_get_def)
  have d: "parse_trades stub_repr ''0xabc'' null_data_payload = Inl none_has_no_get"
    by (simp add: parse_trades_def descend_def null_data_payload_def none_has_no_get_def)
  have e: "parse_migration ''0xabc'' null_data_payload = Inl none_has_no_get"
    by (simp add: parse_migration_def descend_def null_data_payload_def none_has_no_get_def)
  from parse_failure_becomes_error_record [OF a, where repr = stub_repr and limit = 10
      and e = none_has_no_get and token_address = "''0xabc''"]
    a b c d e
  show ?thesis by simp
qed

end
